theory Spec2Isabelle
  imports Main "HOL-Library.Sublist" "HOL-Library.Char_ord" "HOL-Library.List_Lexorder"
begin

section \<open>Python values shared by both helper modules\<close>

text \<open>
  The two modules \<^verbatim>\<open>dimensions_helper.py\<close> and \<^verbatim>\<open>openalex_helper.py\<close> talk to a remote
  API.  Every call that can raise is modelled as a function into a sum type, the left
  summand carrying the exception.
\<close>

datatype exn = ValueError string | ApiError string

text \<open>
  An optional integer argument such as \<^verbatim>\<open>max_results=None\<close> is an \<open>int option\<close>.  The
  source tests it with \<^verbatim>\<open>if max_results:\<close>, which is false for \<^verbatim>\<open>None\<close> and for \<^verbatim>\<open>0\<close>.
\<close>

definition truthy :: "int option \<Rightarrow> bool" where
  "truthy m = (case m of None \<Rightarrow> False | Some n \<Rightarrow> n \<noteq> 0)"

text \<open>The dictionary returned by \<^verbatim>\<open>query_iterative\<close> and \<^verbatim>\<open>fetch_all_with_cursor\<close>
  (keys \<^verbatim>\<open>'total'\<close>, \<^verbatim>\<open>'retrieved'\<close>, \<^verbatim>\<open>'data'\<close>).\<close>

record 'r retrieval =
  total :: "int option"
  retrieved :: nat
  data :: "'r list"

text \<open>The local variables both pagination loops share, and the two ways a loop body
  ends: with \<^verbatim>\<open>break\<close> or by falling through to the next iteration.\<close>

record 'r loop_vars =
  all_results :: "'r list"
  total_count :: "int option"

datatype 's outcome = Break 's | Continue 's

section \<open>Offset pagination: \<^verbatim>\<open>query_iterative\<close> (dimensions\_helper.py)\<close>

text \<open>
  One answer of \<^verbatim>\<open>_get_client().query(...)\<close>: \<^verbatim>\<open>result.count_total\<close>, the attribute
  \<^verbatim>\<open>getattr(result, source_name, [])\<close> and \<^verbatim>\<open>result.json.get(source_name, [])\<close>.
  The client is an oracle: it answers the \<open>n\<close>-th request of the loop, made with
  \<^verbatim>\<open>limit\<close> and \<^verbatim>\<open>skip\<close>, with a result or with an exception.
\<close>

record 'r dsl_result =
  count_total :: "int option"
  attr_data :: "'r list"
  json_data :: "'r list"

type_synonym 'r dsl_client = "nat \<Rightarrow> int \<Rightarrow> int \<Rightarrow> exn + 'r dsl_result"

record 'r offset_vars = "'r loop_vars" +
  page_num :: nat
  skip :: int
  queries :: "(int \<times> int) list"
  api_calls :: "(nat \<times> nat) list"

definition offset_init :: "'r offset_vars" where
  "offset_init = \<lparr>all_results = [], total_count = None, page_num = 0, skip = 0, queries = [],
                   api_calls = []\<rparr>"

text \<open>The body of the \<^verbatim>\<open>while True:\<close> loop, lines 584--619.  \<open>queries\<close> logs the
  \<^verbatim>\<open>limit\<close> and \<^verbatim>\<open>skip\<close> of every request sent; \<open>api_calls\<close> is what
  \<^verbatim>\<open>output.api_call\<close> receives: the page number and \<^verbatim>\<open>len(batch_data)\<close>.\<close>

definition page_body ::
  "'r dsl_client \<Rightarrow> int option \<Rightarrow> int \<Rightarrow> 'r offset_vars \<Rightarrow> 'r offset_vars outcome" where
  "page_body client max_results batch_size v =
    (let v1 = v\<lparr>page_num := page_num v + 1, queries := queries v @ [(batch_size, skip v)]\<rparr> in
     case client (page_num v1) batch_size (skip v) of
       Inl e \<Rightarrow> Break v1
     | Inr result \<Rightarrow>
        (let tc = (case total_count v1 of
                     Some t \<Rightarrow> t
                   | None \<Rightarrow>
                      (let t = (case count_total result of None \<Rightarrow> 0 | Some c \<Rightarrow> c) in
                       if truthy max_results then min t (the max_results) else t));
             v2 = v1\<lparr>total_count := Some tc\<rparr>;
             batch_data = (if attr_data result = [] then json_data result else attr_data result)
         in if batch_data = [] then Break v2
            else
              (let v3 = v2\<lparr>api_calls := api_calls v2 @ [(page_num v2, length batch_data)],
                          all_results := all_results v2 @ batch_data,
                          skip := skip v2 + batch_size\<rparr>
               in if int (length (all_results v3)) \<ge> tc then Break v3
                  else if truthy max_results \<and> int (length (all_results v3)) \<ge> the max_results
                       then Break v3
                  else if int (length batch_data) < batch_size then Break v3
                  else Continue v3)))"

function query_loop ::
  "'r dsl_client \<Rightarrow> int option \<Rightarrow> int \<Rightarrow> 'r offset_vars \<Rightarrow> 'r offset_vars" where
  "query_loop client max_results batch_size v =
    (case page_body client max_results batch_size v of
       Break v' \<Rightarrow> v'
     | Continue v' \<Rightarrow> query_loop client max_results batch_size v')"
  by pat_completeness auto
termination
proof (relation "measures
    [\<lambda>(client, max_results, batch_size, v). (if total_count v = None then 1 else 0),
     \<lambda>(client, max_results, batch_size, v).
        (case total_count v of None \<Rightarrow> 0
         | Some t \<Rightarrow> nat (t - int (length (all_results v))))]")
  show "wf (measures
    [\<lambda>(client, max_results, batch_size, v). (if total_count v = None then 1 else 0),
     \<lambda>(client :: 'r dsl_client, max_results :: int option, batch_size :: int, v :: 'r offset_vars).
        (case total_count v of None \<Rightarrow> 0
         | Some t \<Rightarrow> nat (t - int (length (all_results v))))])"
    by simp
next
  fix client :: "'r dsl_client" and max_results batch_size and v v' :: "'r offset_vars"
  assume "page_body client max_results batch_size v = Continue v'"
  then show "((client, max_results, batch_size, v'), (client, max_results, batch_size, v))
     \<in> measures
    [\<lambda>(client, max_results, batch_size, v). (if total_count v = None then 1 else 0),
     \<lambda>(client, max_results, batch_size, v).
        (case total_count v of None \<Rightarrow> 0
         | Some t \<Rightarrow> nat (t - int (length (all_results v))))]"
    by (cases "total_count v")
       (auto simp: page_body_def Let_def split: sum.splits if_splits)
qed

text \<open>\<^verbatim>\<open>query_iterative\<close>: the batch size is capped at the API limit, the loop runs from
  the initial variables, and the dictionary is built from what the loop leaves.  The
  rewriting of the query text, the conversion to a DataFrame and the saving of files
  happen around the loop and do not touch \<^verbatim>\<open>all_results\<close> or \<^verbatim>\<open>total_count\<close>.\<close>

definition query_iterative_vars :: "'r dsl_client \<Rightarrow> int option \<Rightarrow> int \<Rightarrow> 'r offset_vars" where
  "query_iterative_vars client max_results batch_size =
     query_loop client max_results (min batch_size 1000) offset_init"

definition query_iterative :: "'r dsl_client \<Rightarrow> int option \<Rightarrow> int \<Rightarrow> 'r retrieval" where
  "query_iterative client max_results batch_size =
    (let v = query_iterative_vars client max_results batch_size in
     \<lparr>total = total_count v, retrieved = length (all_results v), data = all_results v\<rparr>)"

text \<open>\<^verbatim>\<open>search_publications\<close>, lines 666--724: the iterative branch hands the first
  twenty records of \<^verbatim>\<open>query_iterative\<close> back under the key \<^verbatim>\<open>'publications'\<close>; the
  other branch sends one query, whose exception is not caught.  In the reply,
  \<open>entities\<close> stands for the entity list (\<^verbatim>\<open>'publications'\<close>, \<^verbatim>\<open>'works'\<close>, ...) and
  \<open>reply_total\<close> for the key \<^verbatim>\<open>'total'\<close>.\<close>

record 'r search_reply =
  reply_total :: "int option"
  returned :: nat
  entities :: "'r list"


section \<open>Cursor pagination: \<^verbatim>\<open>fetch_all_with_cursor\<close> (openalex\_helper.py)\<close>

text \<open>
  One answer of \<^verbatim>\<open>api_request\<close>: \<^verbatim>\<open>response.get('results', [])\<close>, and from
  \<^verbatim>\<open>response.get('meta', {})\<close> the entries \<^verbatim>\<open>count\<close> and \<^verbatim>\<open>next_cursor\<close> (\<open>None\<close> when the
  key is missing).  The API answers the \<open>n\<close>-th request of the loop, sent with
  \<^verbatim>\<open>params['cursor']\<close> and \<^verbatim>\<open>params['per_page']\<close>; \<^verbatim>\<open>api_request\<close> re-raises what fails.
\<close>

record 'r response =
  results :: "'r list"
  meta_count :: "int option"
  next_cursor :: "string option"

type_synonym 'r api = "nat \<Rightarrow> string \<Rightarrow> int \<Rightarrow> exn + 'r response"

record 'r cursor_vars = "'r loop_vars" +
  cursor :: string
  requests :: "string list"

definition cursor_init :: "'r cursor_vars" where
  "cursor_init = \<lparr>all_results = [], total_count = None, cursor = ''*'', requests = []\<rparr>"

text \<open>\<^verbatim>\<open>not next_cursor\<close>: the key is missing, or null, or the empty string.\<close>

definition no_cursor :: "string option \<Rightarrow> bool" where
  "no_cursor c = (case c of None \<Rightarrow> True | Some s \<Rightarrow> s = [])"

text \<open>The body of the \<^verbatim>\<open>while True:\<close> loop, lines 345--373.  \<open>requests\<close> logs the cursor
  of every request sent.\<close>

definition cursor_body ::
  "'r api \<Rightarrow> int option \<Rightarrow> 'r cursor_vars \<Rightarrow> 'r cursor_vars outcome" where
  "cursor_body api_request max_results v =
    (let v1 = v\<lparr>requests := requests v @ [cursor v]\<rparr> in
     case api_request (length (requests v1)) (cursor v) 200 of
       Inl e \<Rightarrow> Break v1
     | Inr response \<Rightarrow>
        (let tc = (case total_count v1 of
                     Some t \<Rightarrow> t
                   | None \<Rightarrow>
                      (let t = (case meta_count response of None \<Rightarrow> 0 | Some c \<Rightarrow> c) in
                       if truthy max_results then min t (the max_results) else t));
             v2 = v1\<lparr>total_count := Some tc\<rparr>
         in if results response = [] then Break v2
            else
              (let v3 = v2\<lparr>all_results := all_results v2 @ results response\<rparr>
               in if int (length (all_results v3)) \<ge> tc then Break v3
                  else if no_cursor (next_cursor response) then Break v3
                  else Continue (v3\<lparr>cursor := the (next_cursor response)\<rparr>))))"

function cursor_loop :: "'r api \<Rightarrow> int option \<Rightarrow> 'r cursor_vars \<Rightarrow> 'r cursor_vars" where
  "cursor_loop api_request max_results v =
    (case cursor_body api_request max_results v of
       Break v' \<Rightarrow> v'
     | Continue v' \<Rightarrow> cursor_loop api_request max_results v')"
  by pat_completeness auto
termination
proof (relation "measures
    [\<lambda>(api_request, max_results, v). (if total_count v = None then 1 else 0),
     \<lambda>(api_request, max_results, v).
        (case total_count v of None \<Rightarrow> 0
         | Some t \<Rightarrow> nat (t - int (length (all_results v))))]")
  show "wf (measures
    [\<lambda>(api_request, max_results, v). (if total_count v = None then 1 else 0),
     \<lambda>(api_request :: 'r api, max_results :: int option, v :: 'r cursor_vars).
        (case total_count v of None \<Rightarrow> 0
         | Some t \<Rightarrow> nat (t - int (length (all_results v))))])"
    by simp
next
  fix api_request :: "'r api" and max_results and v v' :: "'r cursor_vars"
  assume "cursor_body api_request max_results v = Continue v'"
  then show "((api_request, max_results, v'), (api_request, max_results, v))
     \<in> measures
    [\<lambda>(api_request, max_results, v). (if total_count v = None then 1 else 0),
     \<lambda>(api_request, max_results, v).
        (case total_count v of None \<Rightarrow> 0
         | Some t \<Rightarrow> nat (t - int (length (all_results v))))]"
    by (cases "total_count v")
       (auto simp: cursor_body_def Let_def split: sum.splits if_splits)
qed

definition fetch_all_vars :: "'r api \<Rightarrow> int option \<Rightarrow> 'r cursor_vars" where
  "fetch_all_vars api_request max_results = cursor_loop api_request max_results cursor_init"

definition fetch_all_with_cursor :: "'r api \<Rightarrow> int option \<Rightarrow> 'r retrieval" where
  "fetch_all_with_cursor api_request max_results =
    (let v = fetch_all_vars api_request max_results in
     \<lparr>total = total_count v, retrieved = length (all_results v), data = all_results v\<rparr>)"



section \<open>File names: \<^verbatim>\<open>generate_filename\<close> (both modules)\<close>

text \<open>
  \<^verbatim>\<open>generate_filename(prefix, query_terms=None)\<close>.  The clock reading
  \<^verbatim>\<open>datetime.now().strftime(...)\<close> is the argument \<open>timestamp\<close>, \<^verbatim>\<open>prefix\<close> is \<open>prefix'\<close>; the character test
  \<^verbatim>\<open>str.isalnum\<close> of the Python runtime is the argument \<open>isalnum\<close>.  \<^verbatim>\<open>if query_terms:\<close>
  is false for \<^verbatim>\<open>None\<close> and for the empty string.
\<close>

definition generate_filename ::
  "(char \<Rightarrow> bool) \<Rightarrow> string \<Rightarrow> string \<Rightarrow> string option \<Rightarrow> string" where
  "generate_filename isalnum timestamp prefix' query_terms =
    (if query_terms \<noteq> None \<and> query_terms \<noteq> Some [] then
       (let clean_terms = map (\<lambda>c. if isalnum c then c else CHR ''_'') (take 30 (the query_terms))
        in prefix' @ ''_'' @ clean_terms @ ''_'' @ timestamp)
     else prefix' @ ''_'' @ timestamp)"

text \<open>\<^verbatim>\<open>str.isalnum\<close> on ASCII characters: the digits and the letters.\<close>

definition ascii_isalnum :: "char \<Rightarrow> bool" where
  "ascii_isalnum c =
    (let n = of_char c :: nat in (48 \<le> n \<and> n \<le> 57) \<or> (65 \<le> n \<and> n \<le> 90) \<or> (97 \<le> n \<and> n \<le> 122))"

section \<open>Python strings and sets\<close>

text \<open>
  \<^verbatim>\<open>sep.join(xs)\<close>; \<^verbatim>\<open>s.split(sep)\<close> for a non-empty separator (non-overlapping
  occurrences, left to right); \<^verbatim>\<open>s.split(c)[0]\<close> for a one-character separator;
  \<^verbatim>\<open>s.strip()\<close> and \<^verbatim>\<open>s.rstrip('.')\<close>; \<^verbatim>\<open>x in s\<close> is \<open>sublist x s\<close>.
\<close>

fun join :: "string \<Rightarrow> string list \<Rightarrow> string" where
  "join sep [] = []"
| "join sep [x] = x"
| "join sep (x # y # ys) = x @ sep @ join sep (y # ys)"

fun split_from :: "string \<Rightarrow> string \<Rightarrow> string \<Rightarrow> string list" where
  "split_from sep piece [] = [piece]"
| "split_from sep piece (c # cs) =
     (if prefix sep (c # cs) then piece # split_from sep [] (drop (length sep - 1) cs)
      else split_from sep (piece @ [c]) cs)"

definition split :: "string \<Rightarrow> string \<Rightarrow> string list" where
  "split sep s = split_from sep [] s"

definition first_piece :: "char \<Rightarrow> string \<Rightarrow> string" where
  "first_piece c s = takeWhile (\<lambda>x. x \<noteq> c) s"

definition isspace :: "char \<Rightarrow> bool" where
  "isspace c = (let n = of_char c :: nat in (9 \<le> n \<and> n \<le> 13) \<or> (28 \<le> n \<and> n \<le> 32))"

definition strip :: "string \<Rightarrow> string" where
  "strip s = rev (dropWhile isspace (rev (dropWhile isspace s)))"

definition rstrip_dot :: "string \<Rightarrow> string" where
  "rstrip_dot s = rev (dropWhile (\<lambda>c. c = CHR ''.'') (rev s))"

text \<open>
  A Python \<^verbatim>\<open>set\<close> of strings is a list without repetition, in the order in which the
  interpreter iterates over it; \<^verbatim>\<open>s.add(x)\<close> is \<open>set_add\<close>.  Python does not fix that
  order; what is proved below about the caches holds for every list a cache may hold.
\<close>

definition set_add :: "string \<Rightarrow> string list \<Rightarrow> string list" where
  "set_add x xs = (if x \<in> set xs then xs else xs @ [x])"

section \<open>Schema validation of \<^verbatim>\<open>dimensions_helper.py\<close>\<close>

text \<open>
  The answer to \<^verbatim>\<open>describe source ...\<close>: \<^verbatim>\<open>result.json.get('fields', {})\<close> maps a field
  name to its description (\<open>None\<close> when the description is not a dictionary), and
  \<^verbatim>\<open>result.json.get('metrics', [])\<close> lists dictionaries (with their \<^verbatim>\<open>name\<close>), strings
  or other values.  The client answers the \<open>n\<close>-th describe request.
\<close>

record field_info =
  is_facet :: bool
  is_filter :: bool

datatype metric_entry = MetricDict "string option" | MetricStr string | MetricOther

record describe_result =
  fields_data :: "(string \<times> field_info option) list"
  metrics_data :: "metric_entry list"

type_synonym describe_client = "nat \<Rightarrow> string \<Rightarrow> exn + describe_result"

text \<open>The module state: \<^verbatim>\<open>_valid_fields_cache\<close>, and the log of describe requests sent
  (the source of each).\<close>

record fields_cache =
  facets :: "string \<rightharpoonup> string list"
  filters :: "string \<rightharpoonup> string list"
  metrics :: "string \<rightharpoonup> string list"

record dim_state =
  valid_fields_cache :: fields_cache
  describe_log :: "string list"

definition dim_start :: dim_state where
  "dim_start = \<lparr>valid_fields_cache = \<lparr>facets = Map.empty, filters = Map.empty, metrics = Map.empty\<rparr>,
                describe_log = []\<rparr>"

definition fetch_source_metadata :: "describe_client \<Rightarrow> string \<Rightarrow> dim_state \<Rightarrow> dim_state" where
  "fetch_source_metadata describe source w =
    (if facets (valid_fields_cache w) source \<noteq> None then w
     else
       (let w1 = w\<lparr>describe_log := describe_log w @ [source]\<rparr> in
        case describe (length (describe_log w1)) source of
          Inl e \<Rightarrow> w1
        | Inr result \<Rightarrow>
           (let fs = foldl (\<lambda>acc (field_name, field_info).
                        case field_info of
                          Some i \<Rightarrow> if is_facet i then set_add field_name acc else acc
                        | None \<Rightarrow> acc) [] (fields_data result);
                fl = foldl (\<lambda>acc (field_name, field_info).
                        case field_info of
                          Some i \<Rightarrow> if is_filter i then set_add field_name acc else acc
                        | None \<Rightarrow> acc) [] (fields_data result);
                ms = foldl (\<lambda>acc metric.
                        case metric of
                          MetricDict metric_name \<Rightarrow>
                            (case metric_name of
                               Some n \<Rightarrow> if n \<noteq> [] then set_add n acc else acc
                             | None \<Rightarrow> acc)
                        | MetricStr m \<Rightarrow> set_add m acc
                        | MetricOther \<Rightarrow> acc) [] (metrics_data result);
                c = valid_fields_cache w1
            in w1\<lparr>valid_fields_cache :=
                    \<lparr>facets = (facets c)(source \<mapsto> fs),
                     filters = (filters c)(source \<mapsto> fl),
                     metrics = (metrics c)(source \<mapsto> ms)\<rparr>\<rparr>)))"

text \<open>\<^verbatim>\<open>validate_facet(source, facet)\<close>, lines 269--292: the outcome (\<open>Inl\<close> the
  \<^verbatim>\<open>ValueError\<close> raised) and the module state afterwards.\<close>

definition facet_error_msg :: "string \<Rightarrow> string \<Rightarrow> string list \<Rightarrow> string" where
  "facet_error_msg source facet valid_facets =
    (let suggestions = take 5 (filter (\<lambda>f. sublist (first_piece CHR ''_'' facet) f) valid_facets)
     in ''Invalid facet '' @ [CHR 0x27] @ facet @ [CHR 0x27] @ '' for '' @ source @ ''.'' @ [CHR 0x0A]
        @ (if suggestions \<noteq> []
           then ''Similar valid facets: '' @ join '', '' suggestions @ [CHR 0x0A] else [])
        @ ''Valid facets: '' @ join '', '' (take 15 (sort valid_facets)) @ ''...'' @ [CHR 0x0A]
        @ ''Use '' @ [CHR 0x27] @ ''describe '' @ source @ [CHR 0x27]
        @ '' to see all available facets.'')"

definition validate_facet ::
  "describe_client \<Rightarrow> string \<Rightarrow> string \<Rightarrow> dim_state \<Rightarrow> (exn + unit) \<times> dim_state" where
  "validate_facet describe source facet w =
    (let w1 = fetch_source_metadata describe source w;
         valid_facets = (case facets (valid_fields_cache w1) source of
                           None \<Rightarrow> [] | Some fs \<Rightarrow> fs)
     in if valid_facets = [] then (Inr (), w1)
        else if facet \<notin> set valid_facets
             then (Inl (ValueError (facet_error_msg source facet valid_facets)), w1)
        else (Inr (), w1))"

section \<open>Schema validation of \<^verbatim>\<open>openalex_helper.py\<close>\<close>

text \<open>
  The answer to the probe request with an invalid \<^verbatim>\<open>group_by\<close>: the status code and
  \<^verbatim>\<open>response.json().get('message', '')\<close> (\<open>None\<close> when the key is missing).  A request
  that raises, or whose body is not JSON, is an \<open>Inl\<close>.  The module state is the entry
  \<^verbatim>\<open>_valid_fields_cache['group_by']\<close> and the log of probe requests sent.
\<close>

record probe_response =
  status_code :: int
  json_message :: "string option"

type_synonym probe_client = "nat \<Rightarrow> string \<Rightarrow> exn + probe_response"

record oa_state =
  group_by_cache :: "string \<rightharpoonup> string list"
  probe_log :: "string list"

definition oa_start :: oa_state where
  "oa_start = \<lparr>group_by_cache = Map.empty, probe_log = []\<rparr>"

definition fetch_valid_group_by_fields ::
  "probe_client \<Rightarrow> string \<Rightarrow> oa_state \<Rightarrow> string list \<times> oa_state" where
  "fetch_valid_group_by_fields probe entity_type w =
    (case group_by_cache w entity_type of
       Some fs \<Rightarrow> (fs, w)
     | None \<Rightarrow>
        (let w1 = w\<lparr>probe_log := probe_log w @ [entity_type]\<rparr> in
         case probe (length (probe_log w1)) entity_type of
           Inl e \<Rightarrow> ([], w1)
         | Inr response \<Rightarrow>
            if status_code response = 400 then
              (let message = (case json_message response of None \<Rightarrow> [] | Some m \<Rightarrow> m) in
               if sublist ''Valid fields are'' message then
                 (case split ''Valid fields are'' message of
                    _ # fields_part # _ \<Rightarrow>
                      (let fields_str = rstrip_dot (strip fields_part);
                           valid_fields =
                             foldl (\<lambda>acc field.
                                      (let field' = strip field in
                                       if field' \<noteq> [] then set_add field' acc else acc))
                                   [] (split '', '' fields_str)
                       in (valid_fields,
                           w1\<lparr>group_by_cache := (group_by_cache w1)(entity_type \<mapsto> valid_fields)\<rparr>))
                  | _ \<Rightarrow> ([], w1))
               else ([], w1))
            else ([], w1)))"

text \<open>\<^verbatim>\<open>validate_group_by_field(entity_type, group_field)\<close>, lines 105--125.\<close>

definition group_by_error_msg :: "string \<Rightarrow> string \<Rightarrow> string list \<Rightarrow> string" where
  "group_by_error_msg entity_type group_field valid_fields =
    (let field_base = first_piece CHR ''.'' group_field;
         suggestions = take 5 (filter (\<lambda>f. sublist field_base f) valid_fields)
     in ''Invalid group_by field '' @ [CHR 0x27] @ group_field @ [CHR 0x27] @ '' for ''
        @ entity_type @ ''.'' @ [CHR 0x0A]
        @ (if suggestions \<noteq> []
           then ''Similar valid fields: '' @ join '', '' suggestions @ [CHR 0x0A] else [])
        @ ''See https://docs.openalex.org/how-to-use-the-api/get-groups-of-entities for all valid fields.'')"

definition validate_group_by_field ::
  "probe_client \<Rightarrow> string \<Rightarrow> string \<Rightarrow> oa_state \<Rightarrow> (exn + unit) \<times> oa_state" where
  "validate_group_by_field probe entity_type group_field w =
    (let (valid_fields, w1) = fetch_valid_group_by_fields probe entity_type w
     in if valid_fields = [] then (Inr (), w1)
        else if group_field \<notin> set valid_fields
             then (Inl (ValueError (group_by_error_msg entity_type group_field valid_fields)), w1)
        else (Inr (), w1))"

section \<open>Type reconciliation: \<^verbatim>\<open>clean_for_parquet\<close> (both modules)\<close>

text \<open>
  A cell of an object column: null (\<^verbatim>\<open>None\<close>, or the missing-value marker that
  \<^verbatim>\<open>dropna\<close> removes), a string, another scalar, a list or a dictionary.
\<close>

datatype pyval =
    PNone
  | PStr string
  | PInt int
  | PBool bool
  | PList "pyval list"
  | PDict "(string \<times> pyval) list"

fun clean_nested_for_parquet :: "pyval \<Rightarrow> pyval" where
  "clean_nested_for_parquet PNone = PNone"
| "clean_nested_for_parquet (PStr s) = (if s = [] then PNone else PStr s)"
| "clean_nested_for_parquet (PDict kvs) =
     PDict (map (\<lambda>(k, v). (k, clean_nested_for_parquet v)) kvs)"
| "clean_nested_for_parquet (PList items) = PList (map clean_nested_for_parquet items)"
| "clean_nested_for_parquet obj = obj"

text \<open>\<^verbatim>\<open>type_counts\<close> is a dictionary with the keys \<^verbatim>\<open>'list'\<close>, \<^verbatim>\<open>'dict'\<close>, \<^verbatim>\<open>'primitive'\<close>
  inserted in this order: an association list.  \<^verbatim>\<open>max(d, key=d.get)\<close> walks the keys in
  insertion order and keeps the first key whose count no later key exceeds.\<close>

definition bump :: "string \<Rightarrow> (string \<times> nat) list \<Rightarrow> (string \<times> nat) list" where
  "bump key type_counts = map (\<lambda>(k, n). if k = key then (k, n + 1) else (k, n)) type_counts"

text \<open>The three tests of the counting loop and of \<^verbatim>\<open>clean_value\<close>:
  \<^verbatim>\<open>isinstance(val, list) and val\<close>, \<^verbatim>\<open>isinstance(val, dict) and val\<close>, and
  \<^verbatim>\<open>not isinstance(val, (list, dict)) and val != ''\<close>.\<close>

definition nonempty_list :: "pyval \<Rightarrow> bool" where
  "nonempty_list val = (case val of PList xs \<Rightarrow> xs \<noteq> [] | _ \<Rightarrow> False)"

definition nonempty_dict :: "pyval \<Rightarrow> bool" where
  "nonempty_dict val = (case val of PDict kvs \<Rightarrow> kvs \<noteq> [] | _ \<Rightarrow> False)"

definition list_or_dict :: "pyval \<Rightarrow> bool" where
  "list_or_dict val = (case val of PList xs \<Rightarrow> True | PDict kvs \<Rightarrow> True | _ \<Rightarrow> False)"

definition real_primitive :: "pyval \<Rightarrow> bool" where
  "real_primitive val = (\<not> list_or_dict val \<and> val \<noteq> PStr [])"

definition count_value :: "(string \<times> nat) list \<Rightarrow> pyval \<Rightarrow> (string \<times> nat) list" where
  "count_value type_counts val =
    (if nonempty_list val then bump ''list'' type_counts
     else if nonempty_dict val then bump ''dict'' type_counts
     else if real_primitive val then bump ''primitive'' type_counts
     else type_counts)"

fun max_key_from :: "string \<times> nat \<Rightarrow> (string \<times> nat) list \<Rightarrow> string" where
  "max_key_from (k, n) [] = k"
| "max_key_from (k, n) ((k', n') # rest) =
     (if n' > n then max_key_from (k', n') rest else max_key_from (k, n) rest)"

definition get_count :: "(string \<times> nat) list \<Rightarrow> string \<Rightarrow> nat" where
  "get_count type_counts key = (case map_of type_counts key of None \<Rightarrow> 0 | Some n \<Rightarrow> n)"

definition dominant_type :: "pyval list \<Rightarrow> string" where
  "dominant_type non_null =
    (let type_counts = foldl count_value [(''list'', 0), (''dict'', 0), (''primitive'', 0)] non_null;
         dominant = max_key_from (hd type_counts) (tl type_counts)
     in if get_count type_counts dominant = 0 then ''primitive'' else dominant)"

text \<open>The closure \<^verbatim>\<open>clean_value\<close> of \<^verbatim>\<open>dimensions_helper.py\<close> (lines 408--424), which
  also cleans inside a kept list or dictionary, and that of \<^verbatim>\<open>openalex_helper.py\<close>
  (lines 234--246), which keeps it as it is.\<close>

definition clean_value :: "string \<Rightarrow> pyval \<Rightarrow> pyval" where
  "clean_value dominant val =
    (if val = PNone then PNone
     else if dominant = ''list'' then
       (if nonempty_list val then clean_nested_for_parquet val else PNone)
     else if dominant = ''dict'' then
       (if nonempty_dict val then clean_nested_for_parquet val else PNone)
     else
       (if list_or_dict val then PNone
        else if val = PStr [] then PNone
        else val))"

definition clean_value_openalex :: "string \<Rightarrow> pyval \<Rightarrow> pyval" where
  "clean_value_openalex dominant val =
    (if val = PNone then PNone
     else if dominant = ''list'' then (if nonempty_list val then val else PNone)
     else if dominant = ''dict'' then (if nonempty_dict val then val else PNone)
     else
       (if list_or_dict val then PNone
        else if val = PStr [] then PNone
        else val))"

text \<open>A column of the DataFrame, with whether its dtype is \<^verbatim>\<open>object\<close>; the loop over the
  columns with its two \<^verbatim>\<open>continue\<close> statements.\<close>

record column =
  col_name :: string
  dtype_object :: bool
  cells :: "pyval list"

definition clean_column :: "(string \<Rightarrow> pyval \<Rightarrow> pyval) \<Rightarrow> column \<Rightarrow> column" where
  "clean_column cleaner_for col =
    (if \<not> dtype_object col then col
     else
       (let non_null = filter (\<lambda>v. v \<noteq> PNone) (cells col) in
        if non_null = [] then col
        else col\<lparr>cells := map (cleaner_for (dominant_type non_null)) (cells col)\<rparr>))"

definition clean_for_parquet :: "column list \<Rightarrow> column list" where
  "clean_for_parquet df = map (clean_column clean_value) df"

definition clean_for_parquet_openalex :: "column list \<Rightarrow> column list" where
  "clean_for_parquet_openalex df = map (clean_column clean_value_openalex) df"

section \<open>Servers used in the examples\<close>

text \<open>
  A Dimensions server that holds the records \<open>recs\<close> and answers every query with the
  slice the query asks for; an OpenAlex server that holds \<open>recs\<close> and answers the
  \<open>n\<close>-th request with the \<open>n\<close>-th page, with a continuation token while records remain;
  a client that fails at its \<open>k\<close>-th request; one that always fails.
\<close>

definition dsl_server :: "'r list \<Rightarrow> 'r dsl_client" where
  "dsl_server recs n limit skip0 =
     Inr \<lparr>count_total = Some (int (length recs)),
          attr_data = take (nat limit) (drop (nat skip0) recs),
          json_data = []\<rparr>"

definition cursor_server :: "'r list \<Rightarrow> 'r api" where
  "cursor_server recs n cur per_page =
     Inr \<lparr>results = take (nat per_page) (drop ((n - 1) * nat per_page) recs),
          meta_count = Some (int (length recs)),
          next_cursor = (if n * nat per_page < length recs then Some ''more'' else None)\<rparr>"

definition failing_at :: "nat \<Rightarrow> (nat \<Rightarrow> 'a \<Rightarrow> 'b \<Rightarrow> exn + 'c) \<Rightarrow> nat \<Rightarrow> 'a \<Rightarrow> 'b \<Rightarrow> exn + 'c" where
  "failing_at k server n x y = (if n = k then Inl (ApiError ''timeout'') else server n x y)"

definition unreachable :: "nat \<Rightarrow> string \<Rightarrow> exn + 'a" where
  "unreachable n source = Inl (ApiError ''connection refused'')"

text \<open>
  A describe answer with two facet fields; one in which no field is a facet; an OpenAlex
  probe answered with status 400 and the list of valid fields; the OpenAlex module state
  after that probe.
\<close>

definition publications_schema :: describe_client where
  "publications_schema n source =
     Inr \<lparr>fields_data = [(''year'', Some \<lparr>is_facet = True, is_filter = True\<rparr>),
                         (''title'', Some \<lparr>is_facet = False, is_filter = True\<rparr>),
                         (''funder_org'', Some \<lparr>is_facet = True, is_filter = False\<rparr>)],
          metrics_data = [MetricStr ''count'']\<rparr>"


definition works_probe :: probe_client where
  "works_probe n entity_type =
     Inr \<lparr>status_code = 400,
          json_message = Some ''bad group_by. Valid fields are publication_year, oa_status.''\<rparr>"


section \<open>The two loops, one iteration at a time\<close>

declare query_loop.simps [simp del] cursor_loop.simps [simp del]

lemma query_loop_Break: "page_body c m b v = Break v' \<Longrightarrow> query_loop c m b v = v'"
  by (simp add: query_loop.simps)

lemma query_loop_Continue:
  "page_body c m b v = Continue v' \<Longrightarrow> query_loop c m b v = query_loop c m b v'"
  by (simp add: query_loop.simps)

lemma cursor_loop_Break: "cursor_body a m v = Break v' \<Longrightarrow> cursor_loop a m v = v'"
  by (simp add: cursor_loop.simps)

lemma cursor_loop_Continue:
  "cursor_body a m v = Continue v' \<Longrightarrow> cursor_loop a m v = cursor_loop a m v'"
  by (simp add: cursor_loop.simps)

lemma page_body_failure:
  "client (Suc (page_num v)) batch_size (skip v) = Inl e \<Longrightarrow>
   page_body client max_results batch_size v =
     Break (v\<lparr>page_num := Suc (page_num v), queries := queries v @ [(batch_size, skip v)]\<rparr>)"
  by (simp add: page_body_def)

lemma cursor_body_failure:
  "api_request (Suc (length (requests v))) (cursor v) 200 = Inl e \<Longrightarrow>
   cursor_body api_request max_results v = Break (v\<lparr>requests := requests v @ [cursor v]\<rparr>)"
  by (simp add: cursor_body_def)

text \<open>Both functions return a dictionary whose \<^verbatim>\<open>'retrieved'\<close> is \<^verbatim>\<open>len\<close> of its
  \<^verbatim>\<open>'data'\<close>.\<close>

lemma retrieved_is_length_of_data:
  "retrieved (query_iterative client max_results batch_size)
     = length (data (query_iterative client max_results batch_size))
   \<and> retrieved (fetch_all_with_cursor api_request max_results)
     = length (data (fetch_all_with_cursor api_request max_results))"
  by (simp add: query_iterative_def fetch_all_with_cursor_def Let_def)

section \<open>C1: the ceiling and the number of records retrieved\<close>

text \<open>
  C1 says that \<^verbatim>\<open>retrieved\<close> never exceeds a supplied \<^verbatim>\<open>max_results\<close>.  The loops stop
  once the ceiling is reached but keep every page whole.  Against a server that holds
  1000 records and serves pages of 200, \<^verbatim>\<open>fetch_all_with_cursor\<close> with
  \<^verbatim>\<open>max_results=250\<close> sends two requests and returns 400 records, \<^verbatim>\<open>'total'\<close> being 250.
\<close>

theorem cursor_ceiling_exceeded:
  "retrieved (fetch_all_with_cursor (cursor_server (replicate 1000 (0::nat))) (Some 250)) = 400
   \<and> total (fetch_all_with_cursor (cursor_server (replicate 1000 (0::nat))) (Some 250)) = Some 250
   \<and> requests (fetch_all_vars (cursor_server (replicate 1000 (0::nat))) (Some 250))
       = [''*'', ''more'']"
  by (simp add: fetch_all_with_cursor_def fetch_all_vars_def cursor_loop.simps cursor_body_def
      cursor_init_def cursor_server_def truthy_def no_cursor_def Let_def)

section \<open>C2: ceiling 2500 with batches of 1000\<close>

text \<open>
  C2 says that with a ceiling of 2500 the three pages hold 1000, 1000 and 500 records.
  Every request is sent with \<^verbatim>\<open>limit 1000\<close>: against a server that holds 3000 records,
  \<^verbatim>\<open>query_iterative\<close> sends three requests and each page holds 1000 records, 3000 in all.
\<close>

theorem offset_third_page_is_full:
  "queries (query_iterative_vars (dsl_server (replicate 3000 (0::nat))) (Some 2500) 1000)
     = [(1000, 0), (1000, 1000), (1000, 2000)]
   \<and> api_calls (query_iterative_vars (dsl_server (replicate 3000 (0::nat))) (Some 2500) 1000)
     = [(1, 1000), (2, 1000), (3, 1000)]
   \<and> retrieved (query_iterative (dsl_server (replicate 3000 (0::nat))) (Some 2500) 1000) = 3000"
  by (simp add: query_iterative_def query_iterative_vars_def query_loop.simps page_body_def
      offset_init_def dsl_server_def truthy_def Let_def)

section \<open>C3: a failing page ends the loop with what was accumulated\<close>

text \<open>
  C3: when the request of an iteration raises, the loop ends there, sends no further
  request, and leaves \<^verbatim>\<open>all_results\<close> as the earlier pages filled it; this holds in
  both loops and at every iteration.  The \<^verbatim>\<open>except Exception\<close> clause of each loop
  catches the failure, so the loop raises nothing: \<open>query_loop\<close> and \<open>cursor_loop\<close> are
  total and \<open>query_iterative\<close> and \<open>fetch_all_with_cursor\<close> return the dictionary.  What
  \<^verbatim>\<open>query_iterative\<close> does after its loop with pandas and the file system is not part
  of this model.
\<close>

theorem failure_returns_accumulated:
  "(client (Suc (page_num v)) batch_size (skip v) = Inl e \<longrightarrow>
      all_results (query_loop client max_results batch_size v) = all_results v
      \<and> queries (query_loop client max_results batch_size v) = queries v @ [(batch_size, skip v)])
   \<and> (api_request (Suc (length (requests w))) (cursor w) 200 = Inl e' \<longrightarrow>
      all_results (cursor_loop api_request max_results' w) = all_results w
      \<and> requests (cursor_loop api_request max_results' w) = requests w @ [cursor w])"
  by (auto simp: query_loop_Break [OF page_body_failure] cursor_loop_Break [OF cursor_body_failure])

text \<open>Ten records in pages of two, the third request failing: the records of pages 1
  and 2 come back.  A thousand records in pages of 200, the third request failing: the
  400 records of pages 1 and 2 come back.\<close>

theorem failure_returns_accumulated_witness:
  "data (query_iterative (failing_at 3 (dsl_server [1, 2, 3, 4, 5, 6, 7, 8, 9, 10 :: nat])) None 2)
     = [1, 2, 3, 4]
   \<and> data (fetch_all_with_cursor (failing_at 3 (cursor_server (replicate 1000 (0::nat)))) None)
     = replicate 400 0"
proof -
  let ?c = "failing_at 3 (dsl_server [1, 2, 3, 4, 5, 6, 7, 8, 9, 10 :: nat])"
  let ?v1 = "\<lparr>all_results = [1, 2 :: nat], total_count = Some 10, page_num = 1, skip = 2,
              queries = [(2, 0)], api_calls = [(1, 2)]\<rparr>"
  let ?v2 = "\<lparr>all_results = [1, 2, 3, 4 :: nat], total_count = Some 10, page_num = 2, skip = 4,
              queries = [(2, 0), (2, 2)], api_calls = [(1, 2), (2, 2)]\<rparr>"
  let ?a = "failing_at 3 (cursor_server (replicate 1000 (0::nat)))"
  let ?w1 = "\<lparr>all_results = replicate 200 (0::nat), total_count = Some 1000, cursor = ''more'',
              requests = [''*'']\<rparr>"
  let ?w2 = "\<lparr>all_results = replicate 400 (0::nat), total_count = Some 1000, cursor = ''more'',
              requests = [''*'', ''more'']\<rparr>"
  have s1: "page_body ?c None 2 offset_init = Continue ?v1"
    by (simp add: page_body_def offset_init_def failing_at_def dsl_server_def truthy_def Let_def)
  have s2: "page_body ?c None 2 ?v1 = Continue ?v2"
    by (simp add: page_body_def failing_at_def dsl_server_def truthy_def Let_def)
  have f3: "?c (Suc (page_num ?v2)) 2 (skip ?v2) = Inl (ApiError ''timeout'')"
    by (simp add: failing_at_def)
  have t1: "cursor_body ?a None cursor_init = Continue ?w1"
    by (simp add: cursor_body_def cursor_init_def failing_at_def cursor_server_def truthy_def
        no_cursor_def Let_def)
  have t2: "cursor_body ?a None ?w1 = Continue ?w2"
    by (simp add: cursor_body_def failing_at_def cursor_server_def truthy_def no_cursor_def
        Let_def replicate_add [symmetric])
  have g3: "?a (Suc (length (requests ?w2))) (cursor ?w2) 200 = Inl (ApiError ''timeout'')"
    by (simp add: failing_at_def)
  from failure_returns_accumulated [of ?c ?v2 2 "ApiError ''timeout''" None ?a ?w2
      "ApiError ''timeout''" None] f3 g3
  have "all_results (query_loop ?c None 2 ?v2) = [1, 2, 3, 4]"
    and "all_results (cursor_loop ?a None ?w2) = replicate 400 0"
    by simp_all
  moreover have "query_loop ?c None 2 offset_init = query_loop ?c None 2 ?v2"
    by (rule trans [OF query_loop_Continue [OF s1] query_loop_Continue [OF s2]])
  moreover have "cursor_loop ?a None cursor_init = cursor_loop ?a None ?w2"
    by (rule trans [OF cursor_loop_Continue [OF t1] cursor_loop_Continue [OF t2]])
  ultimately show ?thesis
    unfolding query_iterative_def query_iterative_vars_def fetch_all_with_cursor_def
      fetch_all_vars_def Let_def
    by simp
qed

section \<open>C5: when the cursor loop stops\<close>



section \<open>C7: a ceiling of zero\<close>








section \<open>C9: the generated file name\<close>

text \<open>
  C9 says that the query term keeps only its alphanumeric characters.  The code writes
  an underscore in the place of every other character: the term \<^verbatim>\<open>a b\<close> becomes
  \<^verbatim>\<open>a_b\<close>, not \<^verbatim>\<open>ab\<close>.
\<close>

theorem generate_filename_counterexample:
  "generate_filename ascii_isalnum ''20260101_120000'' ''works'' (Some ''a b'')
     = ''works_a_b_20260101_120000''
   \<and> generate_filename ascii_isalnum ''20260101_120000'' ''works'' (Some ''a b'')
     \<noteq> ''works'' @ ''_'' @ filter ascii_isalnum (take 30 ''a b'') @ ''_'' @ ''20260101_120000''"
  by (simp add: generate_filename_def ascii_isalnum_def Let_def)

text \<open>C9, amended: without a term (\<^verbatim>\<open>None\<close> or the empty string) the name is the prefix,
  an underscore and the timestamp.  With a term, the middle component has one character
  for each of the first 30 characters of the term: the character itself when it is
  alphanumeric, an underscore otherwise.\<close>

theorem generate_filename_shape:
  "generate_filename isalnum timestamp prefix' None = prefix' @ ''_'' @ timestamp
   \<and> generate_filename isalnum timestamp prefix' (Some []) = prefix' @ ''_'' @ timestamp
   \<and> (query_terms \<noteq> [] \<longrightarrow>
       (\<exists>clean_terms.
          generate_filename isalnum timestamp prefix' (Some query_terms)
            = prefix' @ ''_'' @ clean_terms @ ''_'' @ timestamp
          \<and> length clean_terms = min 30 (length query_terms)
          \<and> (\<forall>i < length clean_terms.
               clean_terms ! i = (if isalnum (query_terms ! i) then query_terms ! i else CHR ''_''))))"
  by (auto simp: generate_filename_def Let_def)

theorem generate_filename_shape_witness:
  "''machine learning'' \<noteq> []
   \<and> (\<exists>clean_terms.
        generate_filename ascii_isalnum ''20260101_120000'' ''publications''
            (Some ''machine learning'')
          = ''publications'' @ ''_'' @ clean_terms @ ''_'' @ ''20260101_120000''
        \<and> length clean_terms = min 30 (length ''machine learning'')
        \<and> (\<forall>i < length clean_terms.
             clean_terms ! i = (if ascii_isalnum (''machine learning'' ! i)
                                then ''machine learning'' ! i else CHR ''_'')))"
  using generate_filename_shape [of ascii_isalnum "''20260101_120000''" "''publications''"
      "''machine learning''"]
  by simp

section \<open>C10: the entity list of an iterative search\<close>



section \<open>C4: the dominant shape of a column\<close>

lemma bump_three:
  "bump k [(''list'', a), (''dict'', b), (''primitive'', c)] =
     [(''list'', if k = ''list'' then a + 1 else a), (''dict'', if k = ''dict'' then b + 1 else b),
      (''primitive'', if k = ''primitive'' then c + 1 else c)]"
  by (simp add: bump_def)

lemma shapes_exclusive:
  "\<not> (nonempty_list v \<and> nonempty_dict v)" "nonempty_list v \<Longrightarrow> \<not> real_primitive v"
  "nonempty_dict v \<Longrightarrow> \<not> real_primitive v"
  by (auto simp: nonempty_list_def nonempty_dict_def real_primitive_def list_or_dict_def
      split: pyval.splits)

lemma count_value_three:
  "count_value [(''list'', a), (''dict'', b), (''primitive'', c)] v =
     [(''list'', a + (if nonempty_list v then 1 else 0)),
      (''dict'', b + (if nonempty_dict v then 1 else 0)),
      (''primitive'', c + (if real_primitive v then 1 else 0))]"
  using shapes_exclusive [of v] by (auto simp: count_value_def bump_three)

lemma type_counts_fold:
  "foldl count_value [(''list'', a), (''dict'', b), (''primitive'', c)] vals =
     [(''list'', a + length (filter nonempty_list vals)),
      (''dict'', b + length (filter nonempty_dict vals)),
      (''primitive'', c + length (filter real_primitive vals))]"
proof (induction vals arbitrary: a b c)
  case Nil
  then show ?case by simp
next
  case (Cons v vals)
  show ?case
    by (simp add: count_value_three Cons.IH)
qed

text \<open>What the code computes: the empty string is counted under no shape; the shape
  with the greatest count wins; of two shapes with the same greatest count the one
  earlier in the order list, dict, primitive wins; when nothing was counted the shape
  is primitive.\<close>

lemma dominant_type_by_counts:
  "dominant_type non_null =
    (let l = length (filter nonempty_list non_null);
         d = length (filter nonempty_dict non_null);
         p = length (filter real_primitive non_null)
     in if l = 0 \<and> d = 0 \<and> p = 0 then ''primitive''
        else if d \<le> l \<and> p \<le> l then ''list''
        else if p \<le> d then ''dict''
        else ''primitive'')"
  by (auto simp: dominant_type_def type_counts_fold get_count_def Let_def)

text \<open>Whatever the dominant shape, null and the empty string become null, and so does
  every value of another shape.\<close>

lemma clean_value_nulls:
  "clean_value dominant PNone = PNone \<and> clean_value dominant (PStr []) = PNone
   \<and> clean_value_openalex dominant PNone = PNone
   \<and> clean_value_openalex dominant (PStr []) = PNone
   \<and> (\<not> nonempty_list val \<longrightarrow> clean_value ''list'' val = PNone
         \<and> clean_value_openalex ''list'' val = PNone)
   \<and> (\<not> nonempty_dict val \<longrightarrow> clean_value ''dict'' val = PNone
         \<and> clean_value_openalex ''dict'' val = PNone)
   \<and> (\<not> real_primitive val \<longrightarrow> clean_value ''primitive'' val = PNone
         \<and> clean_value_openalex ''primitive'' val = PNone)"
  by (simp add: clean_value_def clean_value_openalex_def nonempty_list_def nonempty_dict_def
      real_primitive_def list_or_dict_def)

text \<open>
  C4 says that an exact tie is broken in favour of the scalar shape, as the comment
  \<^verbatim>\<open># If no clear dominant, default to primitive\<close> announces.  The code falls back to
  \<^verbatim>\<open>'primitive'\<close> only when the greatest count is zero.  In a column with one list and
  one string the counts tie at one, \<^verbatim>\<open>max\<close> returns \<^verbatim>\<open>'list'\<close>, and the string becomes
  null while the list is kept, in both modules.
\<close>

theorem tie_goes_to_list:
  "dominant_type [PList [PInt 1], PStr ''a''] = ''list''
   \<and> clean_for_parquet
        [\<lparr>col_name = ''c'', dtype_object = True, cells = [PList [PInt 1], PStr ''a'']\<rparr>]
      = [\<lparr>col_name = ''c'', dtype_object = True, cells = [PList [PInt 1], PNone]\<rparr>]
   \<and> clean_for_parquet_openalex
        [\<lparr>col_name = ''c'', dtype_object = True, cells = [PList [PInt 1], PStr ''a'']\<rparr>]
      = [\<lparr>col_name = ''c'', dtype_object = True, cells = [PList [PInt 1], PNone]\<rparr>]"
  by (simp add: clean_for_parquet_def clean_for_parquet_openalex_def clean_column_def
      dominant_type_def count_value_def bump_def get_count_def clean_value_def
      clean_value_openalex_def nonempty_list_def nonempty_dict_def real_primitive_def
      list_or_dict_def Let_def)

section \<open>C6: validation against a cached set of fields\<close>













section \<open>C8: when the schema is fetched\<close>

lemma split_from_nonempty: "split_from sep piece s \<noteq> []"
  by (induction sep piece s rule: split_from.induct) auto

lemma split_from_two:
  "sep \<noteq> [] \<Longrightarrow> sublist sep s \<Longrightarrow> \<exists>a b rest. split_from sep piece s = a # b # rest"
proof (induction sep piece s rule: split_from.induct)
  case (1 sep piece)
  then show ?case by simp
next
  case (2 sep piece c cs)
  show ?case
  proof (cases "prefix sep (c # cs)")
    case True
    then show ?thesis
      using split_from_nonempty [of sep "[]" "drop (length sep - 1) cs"]
      by (cases "split_from sep [] (drop (length sep - 1) cs)") auto
  next
    case False
    with 2 show ?thesis by (auto simp: sublist_Cons_right)
  qed
qed

lemma validate_facet_state:
  "snd (validate_facet describe source facet w) = fetch_source_metadata describe source w"
  by (simp add: validate_facet_def Let_def)

lemma validate_group_by_state:
  "snd (validate_group_by_field probe entity_type group_field w)
     = snd (fetch_valid_group_by_fields probe entity_type w)"
  by (simp add: validate_group_by_field_def Let_def split: prod.splits)

lemma fetch_source_metadata_hit:
  "facets (valid_fields_cache w) source \<noteq> None \<Longrightarrow> fetch_source_metadata describe source w = w"
  by (simp add: fetch_source_metadata_def)

lemma fetch_source_metadata_miss:
  assumes "facets (valid_fields_cache w) source = None"
  shows "describe_log (fetch_source_metadata describe source w) = describe_log w @ [source]"
    and "facets (valid_fields_cache (fetch_source_metadata describe source w)) source \<noteq> None
           \<longleftrightarrow> (\<exists>result. describe (Suc (length (describe_log w))) source = Inr result)"
  using assms
  by (auto simp: fetch_source_metadata_def Let_def split: sum.splits)

lemma fetch_source_metadata_keeps:
  "facets (valid_fields_cache w) other \<noteq> None \<Longrightarrow>
   facets (valid_fields_cache (fetch_source_metadata describe source w)) other \<noteq> None"
  by (auto simp: fetch_source_metadata_def Let_def split: sum.splits)

lemma fetch_group_by_hit:
  "group_by_cache w entity_type \<noteq> None \<Longrightarrow>
   snd (fetch_valid_group_by_fields probe entity_type w) = w"
  by (auto simp: fetch_valid_group_by_fields_def)

lemma fetch_group_by_miss_log:
  "group_by_cache w entity_type = None \<Longrightarrow>
   probe_log (snd (fetch_valid_group_by_fields probe entity_type w)) = probe_log w @ [entity_type]"
  by (auto simp: fetch_valid_group_by_fields_def Let_def split: sum.splits list.splits)

lemma fetch_group_by_miss_cached:
  assumes "group_by_cache w entity_type = None"
  shows "group_by_cache (snd (fetch_valid_group_by_fields probe entity_type w)) entity_type \<noteq> None
     \<longleftrightarrow> (\<exists>response. probe (Suc (length (probe_log w))) entity_type = Inr response
            \<and> status_code response = 400
            \<and> sublist ''Valid fields are''
                 (case json_message response of None \<Rightarrow> [] | Some m \<Rightarrow> m))"
proof (cases "probe (Suc (length (probe_log w))) entity_type")
  case (Inl e)
  with assms show ?thesis by (simp add: fetch_valid_group_by_fields_def)
next
  case (Inr response)
  let ?m = "case json_message response of None \<Rightarrow> [] | Some m \<Rightarrow> m"
  show ?thesis
  proof (cases "status_code response = 400 \<and> sublist ''Valid fields are'' ?m")
    case False
    with assms Inr show ?thesis by (auto simp: fetch_valid_group_by_fields_def Let_def)
  next
    case True
    then obtain a b rest where s: "split ''Valid fields are'' ?m = a # b # rest"
      using split_from_two [of "''Valid fields are''" ?m "[]"] by (auto simp: split_def)
    with assms Inr True show ?thesis
      by (simp add: fetch_valid_group_by_fields_def Let_def)
  qed
qed

lemma fetch_group_by_keeps:
  "group_by_cache w other \<noteq> None \<Longrightarrow>
   group_by_cache (snd (fetch_valid_group_by_fields probe entity_type w)) other \<noteq> None"
  by (auto simp: fetch_valid_group_by_fields_def Let_def split: sum.splits list.splits option.splits)

text \<open>
  C8 says that after a failed discovery no further discovery request is made for the
  source.  Only a successful discovery writes to the cache, and the cache is what stops
  the next request: with a server that cannot be reached, two validations send two
  requests, in both modules.
\<close>

theorem discovery_calls_counterexample:
  "describe_log (snd (validate_facet unreachable ''publications'' ''year''
       (snd (validate_facet unreachable ''publications'' ''year'' dim_start))))
     = [''publications'', ''publications'']
   \<and> probe_log (snd (validate_group_by_field unreachable ''works'' ''oa_status''
       (snd (validate_group_by_field unreachable ''works'' ''oa_status'' oa_start))))
     = [''works'', ''works'']"
  by (simp add: validate_facet_def fetch_source_metadata_def validate_group_by_field_def
      fetch_valid_group_by_fields_def unreachable_def dim_start_def oa_start_def Let_def)

text \<open>
  C8, amended: a validation for a source whose fields are cached sends no request and
  leaves the module state as it was; a validation for a source not yet cached sends
  exactly one discovery request, and the source is cached afterwards exactly when that
  request succeeded (for OpenAlex: was answered with status 400 and a message that
  contains \<^verbatim>\<open>Valid fields are\<close>), so that after a failure the next validation sends a
  request again.  A validation never removes a cached entry.
\<close>

theorem discovery_calls_per_validation:
  "(facets (valid_fields_cache w) source \<noteq> None \<longrightarrow>
      snd (validate_facet describe source facet w) = w)
   \<and> (facets (valid_fields_cache w) source = None \<longrightarrow>
        describe_log (snd (validate_facet describe source facet w)) = describe_log w @ [source]
      \<and> (facets (valid_fields_cache (snd (validate_facet describe source facet w))) source \<noteq> None
           \<longleftrightarrow> (\<exists>result. describe (Suc (length (describe_log w))) source = Inr result)))
   \<and> (facets (valid_fields_cache w) other \<noteq> None \<longrightarrow>
        facets (valid_fields_cache (snd (validate_facet describe source facet w))) other \<noteq> None)
   \<and> (group_by_cache w' entity_type \<noteq> None \<longrightarrow>
        snd (validate_group_by_field probe entity_type group_field w') = w')
   \<and> (group_by_cache w' entity_type = None \<longrightarrow>
        probe_log (snd (validate_group_by_field probe entity_type group_field w'))
          = probe_log w' @ [entity_type]
      \<and> (group_by_cache (snd (validate_group_by_field probe entity_type group_field w'))
             entity_type \<noteq> None
           \<longleftrightarrow> (\<exists>response. probe (Suc (length (probe_log w'))) entity_type = Inr response
                  \<and> status_code response = 400
                  \<and> sublist ''Valid fields are''
                       (case json_message response of None \<Rightarrow> [] | Some m \<Rightarrow> m))))
   \<and> (group_by_cache w' other' \<noteq> None \<longrightarrow>
        group_by_cache (snd (validate_group_by_field probe entity_type group_field w')) other'
          \<noteq> None)"
  unfolding validate_facet_state validate_group_by_state
  apply (intro conjI impI)
         apply (erule fetch_source_metadata_hit)
        apply (erule fetch_source_metadata_miss(1))
       apply (erule fetch_source_metadata_miss(2))
      apply (erule fetch_source_metadata_keeps)
     apply (erule fetch_group_by_hit)
    apply (erule fetch_group_by_miss_log)
   apply (erule fetch_group_by_miss_cached)
  apply (erule fetch_group_by_keeps)
  done

text \<open>From the empty cache, a first validation sends one request and a second one
  none, in both modules.\<close>

theorem discovery_calls_per_validation_witness:
  "describe_log (snd (validate_facet publications_schema ''publications'' ''year'' dim_start))
     = [''publications'']
   \<and> snd (validate_facet publications_schema ''publications'' ''funder_org''
        (snd (validate_facet publications_schema ''publications'' ''year'' dim_start)))
     = snd (validate_facet publications_schema ''publications'' ''year'' dim_start)
   \<and> probe_log (snd (validate_group_by_field works_probe ''works'' ''oa_status'' oa_start))
     = [''works'']
   \<and> snd (validate_group_by_field works_probe ''works'' ''publication_year''
        (snd (validate_group_by_field works_probe ''works'' ''oa_status'' oa_start)))
     = snd (validate_group_by_field works_probe ''works'' ''oa_status'' oa_start)"
proof -
  let ?d1 = "snd (validate_facet publications_schema ''publications'' ''year'' dim_start)"
  let ?o1 = "snd (validate_group_by_field works_probe ''works'' ''oa_status'' oa_start)"
  have n: "facets (valid_fields_cache dim_start) ''publications'' = None"
    "group_by_cache oa_start ''works'' = None"
    by (simp_all add: dim_start_def oa_start_def)
  have ok: "\<exists>result. publications_schema (Suc (length (describe_log dim_start))) ''publications''
              = Inr result"
    by (simp add: publications_schema_def)
  have ok': "\<exists>response. works_probe (Suc (length (probe_log oa_start))) ''works'' = Inr response
                  \<and> status_code response = 400
                  \<and> sublist ''Valid fields are''
                       (case json_message response of None \<Rightarrow> [] | Some m \<Rightarrow> m)"
  proof -
    have "sublist ''Valid fields are''
            (''bad group_by. '' @ ''Valid fields are'' @ '' publication_year, oa_status.'')"
      by (rule sublist_appendI)
    then show ?thesis by (simp add: works_probe_def)
  qed
  note t0 = discovery_calls_per_validation [where w = dim_start and source = "''publications''"
      and facet = "''year''" and describe = publications_schema and other = "''publications''"
      and w' = oa_start and entity_type = "''works''" and group_field = "''oa_status''"
      and probe = works_probe and other' = "''works''"]
  from t0 n ok ok' have
    l: "describe_log ?d1 = describe_log dim_start @ [''publications'']"
    and c: "facets (valid_fields_cache ?d1) ''publications'' \<noteq> None"
    and l': "probe_log ?o1 = probe_log oa_start @ [''works'']"
    and c': "group_by_cache ?o1 ''works'' \<noteq> None"
    by blast+
  note t1 = discovery_calls_per_validation [where w = ?d1 and source = "''publications''"
      and facet = "''funder_org''" and describe = publications_schema and other = "''publications''"
      and w' = ?o1 and entity_type = "''works''" and group_field = "''publication_year''"
      and probe = works_probe and other' = "''works''"]
  from t1 c c' have
    "snd (validate_facet publications_schema ''publications'' ''funder_org'' ?d1) = ?d1"
    and "snd (validate_group_by_field works_probe ''works'' ''publication_year'' ?o1) = ?o1"
    by blast+
  with l l' show ?thesis by (simp add: dim_start_def oa_start_def)
qed

end
